theory Spec2Isabelle
  imports Complex_Main "HOL-Library.Log_Nat"
begin

section \<open>Calendar dates\<close>

text \<open>
  The bot reads the clock with \<^verbatim>\<open>datetime.now(tz)\<close> and works with the local calendar
  date \<^verbatim>\<open>now.date()\<close>.  A date is the triple Python's \<^verbatim>\<open>datetime.date\<close> holds; a
  datetime is a date and the time of day (in seconds).  The difference of two dates,
  \<^verbatim>\<open>(a - b).days\<close>, is the difference of their proleptic Gregorian ordinals, computed as
  CPython's \<^verbatim>\<open>_ymd2ord\<close> does.
\<close>

record date =
  year :: int
  month :: int
  day :: int

record datetime =
  date_part :: date
  seconds_of_day :: nat

definition is_leap :: "int \<Rightarrow> bool" where
  "is_leap y = (y mod 4 = 0 \<and> (y mod 100 \<noteq> 0 \<or> y mod 400 = 0))"

definition days_before_year :: "int \<Rightarrow> int" where
  "days_before_year y = (y - 1) * 365 + (y - 1) div 4 - (y - 1) div 100 + (y - 1) div 400"

definition days_before_month :: "int \<Rightarrow> int \<Rightarrow> int" where
  "days_before_month y m =
     (if m \<le> 1 then 0 else if m = 2 then 31 else
        (if m = 3 then 59 else if m = 4 then 90 else if m = 5 then 120
         else if m = 6 then 151 else if m = 7 then 181 else if m = 8 then 212
         else if m = 9 then 243 else if m = 10 then 273 else if m = 11 then 304
         else 334)
        + (if is_leap y then 1 else 0))"

definition toordinal :: "date \<Rightarrow> int" where
  "toordinal d = days_before_year (year d) + days_before_month (year d) (month d) + day d"

text \<open>\<^verbatim>\<open>(a - b).days\<close>\<close>

definition days_between :: "date \<Rightarrow> date \<Rightarrow> int" where
  "days_between a b = toordinal a - toordinal b"

text \<open>\<^verbatim>\<open>a >= b\<close> on dates: year, then month, then day.\<close>

definition date_ge :: "date \<Rightarrow> date \<Rightarrow> bool" where
  "date_ge a b =
     (year a > year b \<or>
      (year a = year b \<and> (month a > month b \<or> (month a = month b \<and> day a \<ge> day b))))"

text \<open>\<^verbatim>\<open>now.replace(day=1).date()\<close>\<close>

definition first_of_month :: "datetime \<Rightarrow> date" where
  "first_of_month now = (date_part now)\<lparr>day := 1\<rparr>"

section \<open>The ledger (db.py)\<close>

text \<open>
  The three tables of \<^verbatim>\<open>CREATE_TABLES\<close>.  A row of \<^verbatim>\<open>articles\<close> has the columns url, title,
  published_at, detected_at and earning (the serial id is never read); a row of
  \<^verbatim>\<open>daily_stats\<close> has date, article_count and earned; \<^verbatim>\<open>streak_info\<close> has at most the one
  row with id 1.  Money is counted in hundredths, the unit of the \<^verbatim>\<open>NUMERIC(10,2)\<close>
  columns; integer columns are unbounded integers.  Every function opens its own
  connection and commits, so each is one step on the state of the database.
\<close>

record article_row =
  art_url :: string
  art_title :: string
  art_published_at :: "datetime option"
  art_detected_at :: datetime
  art_earning :: int

record daily_row =
  ds_date :: date
  ds_article_count :: int
  ds_earned :: int

record streak_row =
  si_current_streak :: int
  si_last_publish_date :: "date option"

record db =
  articles :: "article_row list"
  daily_stats :: "daily_row list"
  streak_info :: "streak_row option"

text \<open>
  \<^verbatim>\<open>init_db\<close>: the tables are created when missing, and the streak row is inserted
  with \<^verbatim>\<open>ON CONFLICT (id) DO NOTHING\<close>.
\<close>

definition empty_db :: db where
  "empty_db = \<lparr>articles = [], daily_stats = [], streak_info = None\<rparr>"

definition init_db :: "db \<Rightarrow> db" where
  "init_db s =
     (case streak_info s of
        None \<Rightarrow> s\<lparr>streak_info := Some \<lparr>si_current_streak = 0, si_last_publish_date = None\<rparr>\<rparr>
      | Some r \<Rightarrow> s)"

definition is_known_url :: "string \<Rightarrow> db \<Rightarrow> bool" where
  "is_known_url u s = list_ex (\<lambda>r. art_url r = u) (articles s)"

text \<open>
  The first statement of \<^verbatim>\<open>insert_article\<close>:
  \<^verbatim>\<open>INSERT INTO articles ... ON CONFLICT (url) DO NOTHING\<close>.
\<close>

definition insert_or_ignore :: "article_row \<Rightarrow> article_row list \<Rightarrow> article_row list" where
  "insert_or_ignore r rows =
     (if list_ex (\<lambda>x. art_url x = art_url r) rows then rows else rows @ [r])"

text \<open>
  The second statement:
  \<^verbatim>\<open>INSERT INTO daily_stats (date, article_count, earned) VALUES (today, 1, earning)
  ON CONFLICT (date) DO UPDATE SET article_count = daily_stats.article_count + 1,
  earned = daily_stats.earned + earning\<close>.
\<close>

definition upsert_daily :: "date \<Rightarrow> int \<Rightarrow> daily_row list \<Rightarrow> daily_row list" where
  "upsert_daily today earning rows =
     (if list_ex (\<lambda>x. ds_date x = today) rows
      then map (\<lambda>x. if ds_date x = today
                      then x\<lparr>ds_article_count := ds_article_count x + 1,
                             ds_earned := ds_earned x + earning\<rparr>
                      else x) rows
      else rows @ [\<lparr>ds_date = today, ds_article_count = 1, ds_earned = earning\<rparr>])"

text \<open>
  \<^verbatim>\<open>insert_article(url, title, published_at, earning, tz)\<close> runs both statements in one
  transaction and returns \<^verbatim>\<open>None\<close>: the result of the model is the new state.
\<close>

definition insert_article ::
  "string \<Rightarrow> string \<Rightarrow> datetime option \<Rightarrow> int \<Rightarrow> datetime \<Rightarrow> db \<Rightarrow> db" where
  "insert_article u t published earning now s =
     (let today = date_part now in
      s\<lparr>articles :=
          insert_or_ignore
            \<lparr>art_url = u, art_title = t, art_published_at = published,
             art_detected_at = now, art_earning = earning\<rparr> (articles s),
        daily_stats := upsert_daily today earning (daily_stats s)\<rparr>)"

definition get_today_count :: "datetime \<Rightarrow> db \<Rightarrow> int" where
  "get_today_count now s =
     (case find (\<lambda>x. ds_date x = date_part now) (daily_stats s) of
        None \<Rightarrow> 0 | Some row \<Rightarrow> ds_article_count row)"

definition get_today_earned :: "datetime \<Rightarrow> db \<Rightarrow> int" where
  "get_today_earned now s =
     (case find (\<lambda>x. ds_date x = date_part now) (daily_stats s) of
        None \<Rightarrow> 0 | Some row \<Rightarrow> ds_earned row)"

definition get_monthly_count :: "datetime \<Rightarrow> db \<Rightarrow> int" where
  "get_monthly_count now s =
     sum_list (map ds_article_count
       (filter (\<lambda>x. date_ge (ds_date x) (first_of_month now)) (daily_stats s)))"

definition get_monthly_earned :: "datetime \<Rightarrow> db \<Rightarrow> int" where
  "get_monthly_earned now s =
     sum_list (map ds_earned
       (filter (\<lambda>x. date_ge (ds_date x) (first_of_month now)) (daily_stats s)))"



definition get_streak :: "db \<Rightarrow> int \<times> date option" where
  "get_streak s =
     (case streak_info s of
        Some row \<Rightarrow> (si_current_streak row, si_last_publish_date row)
      | None \<Rightarrow> (0, None))"

text \<open>
  \<^verbatim>\<open>db.update_streak\<close>: \<^verbatim>\<open>UPDATE streak_info SET ... WHERE id = 1\<close> changes the row when
  there is one and nothing otherwise.
\<close>

definition db_update_streak :: "int \<Rightarrow> date \<Rightarrow> db \<Rightarrow> db" where
  "db_update_streak streak last_publish_date s =
     (case streak_info s of
        None \<Rightarrow> s
      | Some row \<Rightarrow>
          s\<lparr>streak_info :=
              Some \<lparr>si_current_streak = streak, si_last_publish_date = Some last_publish_date\<rparr>\<rparr>)"

section \<open>The streak (streak.py)\<close>

definition new_streak_of :: "int \<Rightarrow> date option \<Rightarrow> date \<Rightarrow> int" where
  "new_streak_of current_streak last_publish today =
     (case last_publish of
        None \<Rightarrow> 1
      | Some lp \<Rightarrow>
          (let delta = days_between today lp in
           if delta = 0 then (if current_streak > 0 then current_streak else 1)
           else if delta = 1 then current_streak + 1
           else 1))"

definition update_streak :: "datetime \<Rightarrow> db \<Rightarrow> int \<times> db" where
  "update_streak now s =
     (let today = date_part now;
          (current_streak, last_publish) = get_streak s;
          new_streak = new_streak_of current_streak last_publish today
      in (new_streak, db_update_streak new_streak today s))"

section \<open>The feed (sitemap_parser.py)\<close>

text \<open>
  Strings are lists of characters.  The whitespace and the letters that \<^verbatim>\<open>strip\<close> and
  \<^verbatim>\<open>title\<close> look at are the ASCII ones; other characters are left as they are.
\<close>

definition is_space :: "char \<Rightarrow> bool" where
  "is_space c = (let n = (of_char c :: nat) in (9 \<le> n \<and> n \<le> 13) \<or> (28 \<le> n \<and> n \<le> 32))"

definition strip :: "string \<Rightarrow> string" where
  "strip s = rev (dropWhile is_space (rev (dropWhile is_space s)))"

definition rstrip_char :: "char \<Rightarrow> string \<Rightarrow> string" where
  "rstrip_char c s = rev (dropWhile (\<lambda>x. x = c) (rev s))"

text \<open>\<^verbatim>\<open>s.split(c)\<close>: the pieces between the separators, never an empty list.\<close>

fun split_on :: "char \<Rightarrow> string \<Rightarrow> string list" where
  "split_on c [] = [[]]"
| "split_on c (x # xs) =
     (if x = c then [] # split_on c xs
      else (case split_on c xs of
              w # ws \<Rightarrow> (x # w) # ws
            | [] \<Rightarrow> [[x]]))"

definition replace_char :: "char \<Rightarrow> char \<Rightarrow> string \<Rightarrow> string" where
  "replace_char a b s = map (\<lambda>x. if x = a then b else x) s"

definition is_upper :: "char \<Rightarrow> bool" where
  "is_upper c = (let n = (of_char c :: nat) in 65 \<le> n \<and> n \<le> 90)"

definition is_lower :: "char \<Rightarrow> bool" where
  "is_lower c = (let n = (of_char c :: nat) in 97 \<le> n \<and> n \<le> 122)"

definition to_upper :: "char \<Rightarrow> char" where
  "to_upper c = (if is_lower c then char_of ((of_char c :: nat) - 32) else c)"

definition to_lower :: "char \<Rightarrow> char" where
  "to_lower c = (if is_upper c then char_of ((of_char c :: nat) + 32) else c)"

text \<open>
  \<^verbatim>\<open>s.title()\<close>: a letter that follows a letter is lowered, any other letter is raised.
\<close>

fun title_from :: "bool \<Rightarrow> string \<Rightarrow> string" where
  "title_from previous_is_cased [] = []"
| "title_from previous_is_cased (c # cs) =
     (if previous_is_cased then to_lower c else to_upper c)
       # title_from (is_upper c \<or> is_lower c) cs"

definition title_case :: "string \<Rightarrow> string" where
  "title_case s = title_from False s"

text \<open>The dataclass \<^verbatim>\<open>Article\<close>; its field \<^verbatim>\<open>keywords\<close> is \<open>keywords_list\<close> here.\<close>

record Article =
  url :: string
  title :: string
  publication_date :: string
  keywords_list :: "string list"

text \<open>
  A \<^verbatim>\<open><url>\<close> element, as the four \<^verbatim>\<open>findtext\<close> calls of \<^verbatim>\<open>parse_sitemap\<close> read it: the
  text of its loc, news title, publication date and keywords (the empty string when the
  field is missing).
\<close>

record url_el =
  el_loc :: string
  el_title :: string
  el_publication_date :: string
  el_keywords :: string

text \<open>
  The bytes of a response are modelled by what \<^verbatim>\<open>etree.fromstring\<close> makes of them: an
  \<^verbatim>\<open>XMLSyntaxError\<close>, or a root whose \<^verbatim>\<open>sm:url\<close> children are listed in document order.
\<close>

datatype content = Malformed | Sitemap "url_el list"

text \<open>
  \<^verbatim>\<open>requests.get\<close> either raises a \<^verbatim>\<open>RequestException\<close> or returns a response with a
  status code and a body; \<^verbatim>\<open>raise_for_status\<close> raises for the codes from 400 to 599.
\<close>

datatype get_outcome = GetRaised | GetResponse nat content

definition raises_for_status :: "nat \<Rightarrow> bool" where
  "raises_for_status status_code = (400 \<le> status_code \<and> status_code < 600)"

definition fetch_sitemap :: "get_outcome \<Rightarrow> content option" where
  "fetch_sitemap outcome =
     (case outcome of
        GetRaised \<Rightarrow> None
      | GetResponse status_code body \<Rightarrow>
          if raises_for_status status_code then None else Some body)"

text \<open>One turn of the loop over the url elements: \<open>None\<close> is \<^verbatim>\<open>continue\<close>.\<close>

definition parse_url_el :: "url_el \<Rightarrow> Article option" where
  "parse_url_el url_el =
     (let loc = strip (el_loc url_el) in
      if loc = [] then None
      else
        let title0 = strip (el_title url_el);
            pub_date = strip (el_publication_date url_el);
            keywords_str = strip (el_keywords url_el);
            kws = (if keywords_str = [] then []
                   else filter (\<lambda>k. k \<noteq> [])
                          (map strip (split_on (CHR '','') keywords_str)));
            title1 = (if title0 = []
                      then title_case
                             (replace_char (CHR ''-'') (CHR '' '')
                                (last (split_on (CHR ''/'') (rstrip_char (CHR ''/'') loc))))
                      else title0)
        in Some \<lparr>url = loc, title = title1, publication_date = pub_date, keywords_list = kws\<rparr>)"

definition parse_sitemap :: "content \<Rightarrow> Article list" where
  "parse_sitemap xml_content =
     (case xml_content of
        Malformed \<Rightarrow> []
      | Sitemap url_elements \<Rightarrow> List.map_filter parse_url_el url_elements)"

definition fetch_and_parse :: "get_outcome \<Rightarrow> Article list option" where
  "fetch_and_parse outcome =
     (case fetch_sitemap outcome of
        None \<Rightarrow> None
      | Some xml_content \<Rightarrow> Some (parse_sitemap xml_content))"

section \<open>Webhook delivery (discord_webhook.py)\<close>









section \<open>The poll cycle and the scheduler (bot.py)\<close>

record config =
  sitemap_url :: string
  discord_webhook_url :: string
  discord_user_id :: string
  dashboard_url :: string
  article_value_usd :: int
  daily_target :: int
  monthly_target :: int
  poll_interval :: nat
  timezone :: string

datatype py_error = TypeError

text \<open>
  The parameters of \<^verbatim>\<open>send_article_notification\<close> (those without and those with a
  default) and the keywords \<^verbatim>\<open>poll_cycle\<close> calls it with.  Python binds the keywords
  before the body runs and raises \<^verbatim>\<open>TypeError\<close> for a keyword that is no parameter or a
  parameter without a default that gets no value.
\<close>

definition send_article_notification_required :: "string list" where
  "send_article_notification_required =
     [''webhook_url'', ''article_title'', ''article_url'', ''article_value'',
      ''today_count'', ''daily_target'', ''monthly_count'', ''monthly_target'',
      ''streak'', ''total_earned'']"

definition send_article_notification_optional :: "string list" where
  "send_article_notification_optional = [''user_id'', ''dashboard_url'']"

definition poll_cycle_keywords :: "string list" where
  "poll_cycle_keywords =
     [''webhook_url'', ''article_title'', ''article_url'', ''article_value'',
      ''today_count'', ''daily_target'', ''monthly_count'', ''monthly_target'',
      ''streak'', ''today_earned'', ''monthly_earned'', ''user_id'', ''dashboard_url'']"

definition call_binds :: "string list \<Rightarrow> string list \<Rightarrow> string list \<Rightarrow> bool" where
  "call_binds required optional given =
     (list_all (\<lambda>k. List.member (required @ optional) k) given
      \<and> list_all (\<lambda>k. List.member given k) required)"

text \<open>
  The \<^verbatim>\<open>for article in articles\<close> loop of \<^verbatim>\<open>poll_cycle\<close>.  The clock is read as one instant
  \<open>now\<close> during the cycle.  The four counter reads before the notification change
  nothing; the webhook is not part of the ledger, so a notification that is sent leaves
  the state as it is.
\<close>

fun poll_articles ::
  "config \<Rightarrow> datetime \<Rightarrow> Article list \<Rightarrow> int \<Rightarrow> db \<Rightarrow> (py_error + int) \<times> db" where
  "poll_articles cfg now [] new_count s = (Inr new_count, s)"
| "poll_articles cfg now (article # rest) new_count s =
     (if is_known_url (url article) s then poll_articles cfg now rest new_count s
      else
        (let s1 = snd (update_streak now s);
             s2 = insert_article (url article) (title article) None
                    (article_value_usd cfg) now s1
         in if call_binds send_article_notification_required
                 send_article_notification_optional poll_cycle_keywords
            then poll_articles cfg now rest (new_count + 1) s2
            else (Inl TypeError, s2)))"

definition poll_cycle ::
  "config \<Rightarrow> get_outcome \<Rightarrow> datetime \<Rightarrow> db \<Rightarrow> (py_error + int) \<times> db" where
  "poll_cycle cfg outcome now s =
     (case fetch_and_parse outcome of
        None \<Rightarrow> (Inr (- 1), s)
      | Some found \<Rightarrow> poll_articles cfg now found 0 s)"

text \<open>
  The body of the \<^verbatim>\<open>while not shutdown_flag\<close> loop of \<^verbatim>\<open>main\<close>.  The state of the scheduler
  is the counter, the alerts dispatched so far (each with the count it reports) and the
  ledger.
\<close>

record scheduler =
  consecutive_failures :: int
  alerts :: "int list"
  ledger :: db

definition max_failures :: int where
  "max_failures = 3"

definition on_result :: "(py_error + int) \<Rightarrow> scheduler \<Rightarrow> scheduler" where
  "on_result result st =
     (case result of
        Inr r \<Rightarrow>
          if r = - 1 then
            (let n = consecutive_failures st + 1 in
             if n \<ge> max_failures
             then st\<lparr>consecutive_failures := 0, alerts := alerts st @ [n]\<rparr>
             else st\<lparr>consecutive_failures := n\<rparr>)
          else st\<lparr>consecutive_failures := 0\<rparr>
      | Inl e \<Rightarrow> st\<lparr>consecutive_failures := consecutive_failures st + 1\<rparr>)"

definition main_iteration :: "config \<Rightarrow> get_outcome \<times> datetime \<Rightarrow> scheduler \<Rightarrow> scheduler" where
  "main_iteration cfg env st =
     (let (result, s') = poll_cycle cfg (fst env) (snd env) (ledger st)
      in on_result result (st\<lparr>ledger := s'\<rparr>))"

text \<open>The iterations the loop makes before the shutdown flag is set, one per entry.\<close>

fun main_loop :: "config \<Rightarrow> (get_outcome \<times> datetime) list \<Rightarrow> scheduler \<Rightarrow> scheduler" where
  "main_loop cfg [] st = st"
| "main_loop cfg (env # envs) st = main_loop cfg envs (main_iteration cfg env st)"

definition start :: "db \<Rightarrow> scheduler" where
  "start s = \<lparr>consecutive_failures = 0, alerts = [], ledger = init_db s\<rparr>"

section \<open>The progress bar (progress.py)\<close>












definition calculate_daily_remaining :: "int \<Rightarrow> int \<Rightarrow> int" where
  "calculate_daily_remaining current target = max 0 (target - current)"

section \<open>Notions used in the statements\<close>

text \<open>The article records whose detection date is \<open>d\<close>.\<close>

definition detected_on :: "date \<Rightarrow> db \<Rightarrow> article_row list" where
  "detected_on d s = filter (\<lambda>r. date_part (art_detected_at r) = d) (articles s)"

definition detected_since :: "date \<Rightarrow> db \<Rightarrow> article_row list" where
  "detected_since d s = filter (\<lambda>r. date_ge (date_part (art_detected_at r)) d) (articles s)"

text \<open>
  The consistency of the aggregates with the records: the rows of \<open>daily_stats\<close> have
  distinct dates, each row holds the count and the earnings of the records detected on its
  date, and every record's detection date has a row.
\<close>

definition row_matches :: "db \<Rightarrow> daily_row \<Rightarrow> bool" where
  "row_matches s row =
     (ds_article_count row = int (length (detected_on (ds_date row) s))
      \<and> ds_earned row = sum_list (map art_earning (detected_on (ds_date row) s)))"

definition consistent :: "db \<Rightarrow> bool" where
  "consistent s =
     (distinct (map ds_date (daily_stats s))
      \<and> list_all (row_matches s) (daily_stats s)
      \<and> list_all (\<lambda>r. List.member (map ds_date (daily_stats s)) (date_part (art_detected_at r)))
           (articles s))"




section \<open>Concrete inputs\<close>

definition example_today :: date where
  "example_today = \<lparr>year = 2024, month = 3, day = 1\<rparr>"

definition example_now :: datetime where
  "example_now = \<lparr>date_part = example_today, seconds_of_day = 32400\<rparr>"

definition ledger_with_streak :: "int \<Rightarrow> date option \<Rightarrow> db" where
  "ledger_with_streak c d =
     \<lparr>articles = [], daily_stats = [],
      streak_info = Some \<lparr>si_current_streak = c, si_last_publish_date = d\<rparr>\<rparr>"

definition example_cfg :: config where
  "example_cfg =
     \<lparr>sitemap_url = ''https://example.com/news-sitemap.xml'',
      discord_webhook_url = ''https://discord.example/api/webhooks/1'',
      discord_user_id = [], dashboard_url = [],
      article_value_usd = 415, daily_target = 8, monthly_target = 240,
      poll_interval = 180, timezone = ''Asia/Jakarta''\<rparr>"

definition inserted_once :: db where
  "inserted_once =
     insert_article ''https://example.com/a'' ''A'' None 415 example_now (init_db empty_db)"

definition inserted_twice :: db where
  "inserted_twice =
     insert_article ''https://example.com/a'' ''A'' None 415 example_now inserted_once"




definition new_article_feed :: get_outcome where
  "new_article_feed =
     GetResponse 200
       (Sitemap
          [\<lparr>el_loc = ''https://example.com/a'', el_title = ''A'',
             el_publication_date = [], el_keywords = []\<rparr>,
           \<lparr>el_loc = ''https://example.com/b'', el_title = ''B'',
             el_publication_date = [], el_keywords = []\<rparr>,
           \<lparr>el_loc = ''https://example.com/c'', el_title = ''C'',
             el_publication_date = [], el_keywords = []\<rparr>])"

definition cycles_with_new_articles :: "(get_outcome \<times> datetime) list" where
  "cycles_with_new_articles =
     [(new_article_feed, example_now), (new_article_feed, example_now),
      (new_article_feed, example_now)]"

definition cycles_with_fetch_failures :: "(get_outcome \<times> datetime) list" where
  "cycles_with_fetch_failures =
     [(GetRaised, example_now), (GetRaised, example_now), (GetRaised, example_now)]"

section \<open>Properties of the streak\<close>

lemma update_streak_stored:
  assumes "streak_info s = Some \<lparr>si_current_streak = c, si_last_publish_date = d\<rparr>"
  shows "update_streak now s =
           (new_streak_of c d (date_part now),
            s\<lparr>streak_info :=
                Some \<lparr>si_current_streak = new_streak_of c d (date_part now),
                      si_last_publish_date = Some (date_part now)\<rparr>\<rparr>)"
  using assms by (simp add: update_streak_def get_streak_def db_update_streak_def Let_def)



text \<open>
  Claim C10.  When the stored last publish date is neither today nor yesterday, in
  particular when it lies after today (a negative gap), \<open>update_streak\<close> returns 1 and
  the ledger then holds the streak 1 and today's date: the reset branch is taken for
  every gap other than 0 and 1.
\<close>

theorem update_streak_other_gap:
  assumes "streak_info s = Some \<lparr>si_current_streak = c, si_last_publish_date = Some lp\<rparr>"
    and "days_between (date_part now) lp \<noteq> 0"
    and "days_between (date_part now) lp \<noteq> 1"
  shows "fst (update_streak now s) = 1
       \<and> get_streak (snd (update_streak now s)) = (1, Some (date_part now))"
  unfolding update_streak_stored [OF assms(1)]
  using assms(2,3) by (simp add: new_streak_of_def get_streak_def)

theorem update_streak_other_gap_witness:
  "days_between example_today \<lparr>year = 2024, month = 3, day = 5\<rparr> = - 4
   \<and> fst (update_streak example_now
          (ledger_with_streak 9 (Some \<lparr>year = 2024, month = 3, day = 5\<rparr>))) = 1
   \<and> get_streak (snd (update_streak example_now
          (ledger_with_streak 9 (Some \<lparr>year = 2024, month = 3, day = 5\<rparr>))))
       = (1, Some example_today)"
  using update_streak_other_gap [of "ledger_with_streak 9 (Some \<lparr>year = 2024, month = 3, day = 5\<rparr>)"
          9 "\<lparr>year = 2024, month = 3, day = 5\<rparr>" example_now]
  by (simp add: ledger_with_streak_def example_now_def example_today_def days_between_def
        toordinal_def days_before_year_def days_before_month_def is_leap_def)

section \<open>Properties of the ledger\<close>

lemmas ex_defs = inserted_once_def inserted_twice_def example_now_def example_today_def Let_def
  init_db_def empty_db_def insert_article_def insert_or_ignore_def upsert_daily_def






text \<open>
  Claim C2 at the failing input: after \<open>insert_article\<close> has run twice with one url on
  one day, the row of that day counts 2 articles and 830 hundredths, and so do the
  monthly accessors, while one record with 415 hundredths was detected on that day.
\<close>

theorem daily_stats_diverge_after_repeat:
  "map ds_article_count (daily_stats inserted_twice) = [2]
   \<and> map ds_earned (daily_stats inserted_twice) = [830]
   \<and> int (length (detected_on example_today inserted_twice)) = 1
   \<and> sum_list (map art_earning (detected_on example_today inserted_twice)) = 415
   \<and> get_monthly_count example_now inserted_twice = 2
   \<and> get_monthly_earned example_now inserted_twice = 830
   \<and> int (length (detected_since (first_of_month example_now) inserted_twice)) = 1
   \<and> sum_list (map art_earning (detected_since (first_of_month example_now) inserted_twice)) = 415"
  by (simp add: ex_defs detected_on_def detected_since_def get_monthly_count_def
        get_monthly_earned_def first_of_month_def date_ge_def)

subsection \<open>The aggregates while every insert is of a new url\<close>

text \<open>
  \<open>poll_cycle\<close> calls \<open>insert_article\<close> only for a url that \<open>is_known_url\<close> does not
  find.  Along such calls the aggregates stay consistent with the records, and then the
  daily and the monthly accessors return the count and the earnings of the records in
  their window.
\<close>

lemma indicator_sum_absent:
  "d0 \<notin> set ds \<Longrightarrow> (\<Sum>d\<leftarrow>filter Q ds. if d0 = d then w else 0) = (0::int)"
  by (induction ds) auto

lemma indicator_sum:
  "distinct ds \<Longrightarrow> d0 \<in> set ds \<Longrightarrow>
     (\<Sum>d\<leftarrow>filter Q ds. if d0 = d then w else 0) = (if Q d0 then w else (0::int))"
  by (induction ds) (auto simp: indicator_sum_absent)

lemma partition_sum:
  assumes "distinct ds" and "\<forall>a\<in>set A. f a \<in> set ds"
  shows "(\<Sum>d\<leftarrow>filter Q ds. sum_list (map w (filter (\<lambda>a. f a = d) A)))
           = (sum_list (map w (filter (\<lambda>a. Q (f a)) A)) :: int)"
  using assms(2)
proof (induction A)
  case Nil
  then show ?case by simp
next
  case (Cons a A)
  have "(\<Sum>d\<leftarrow>filter Q ds. sum_list (map w (filter (\<lambda>x. f x = d) (a # A))))
      = (\<Sum>d\<leftarrow>filter Q ds. (if f a = d then w a else 0) + sum_list (map w (filter (\<lambda>x. f x = d) A)))"
    by (intro arg_cong [where f = sum_list] map_cong) auto
  also have "\<dots> = (\<Sum>d\<leftarrow>filter Q ds. if f a = d then w a else 0)
                  + (\<Sum>d\<leftarrow>filter Q ds. sum_list (map w (filter (\<lambda>x. f x = d) A)))"
    by (simp add: sum_list_addf)
  also have "\<dots> = (if Q (f a) then w a else 0) + sum_list (map w (filter (\<lambda>a. Q (f a)) A))"
    using Cons indicator_sum [OF assms(1), where ?d0.0 = "f a" and Q = Q and w = "w a"] by simp
  finally show ?case by simp
qed

lemma monthly_of_consistent:
  assumes "consistent s"
  shows "get_monthly_count now s = int (length (detected_since (first_of_month now) s))"
    and "get_monthly_earned now s
           = sum_list (map art_earning (detected_since (first_of_month now) s))"
proof -
  let ?Q = "\<lambda>d. date_ge d (first_of_month now)"
  let ?f = "\<lambda>r. date_part (art_detected_at r)"
  let ?ds = "map ds_date (daily_stats s)"
  from assms have d: "distinct ?ds"
    and rows: "\<forall>row\<in>set (daily_stats s). row_matches s row"
    and cover: "\<forall>a\<in>set (articles s). ?f a \<in> set ?ds"
    by (auto simp: consistent_def list_all_iff)
  have "get_monthly_count now s
      = (\<Sum>row\<leftarrow>filter (\<lambda>x. ?Q (ds_date x)) (daily_stats s).
           sum_list (map (\<lambda>_. 1) (filter (\<lambda>a. ?f a = ds_date row) (articles s))))"
    unfolding get_monthly_count_def
    using rows by (intro arg_cong [where f = sum_list] map_cong)
      (auto simp: row_matches_def detected_on_def sum_list_triv)
  also have "\<dots> = (\<Sum>d\<leftarrow>filter ?Q ?ds.
           sum_list (map (\<lambda>_. 1) (filter (\<lambda>a. ?f a = d) (articles s))))"
    by (simp add: filter_map comp_def)
  also have "\<dots> = sum_list (map (\<lambda>_. 1) (filter (\<lambda>a. ?Q (?f a)) (articles s)))"
    by (rule partition_sum [OF d cover])
  finally show "get_monthly_count now s = int (length (detected_since (first_of_month now) s))"
    by (simp add: detected_since_def sum_list_triv)
  have "get_monthly_earned now s
      = (\<Sum>row\<leftarrow>filter (\<lambda>x. ?Q (ds_date x)) (daily_stats s).
           sum_list (map art_earning (filter (\<lambda>a. ?f a = ds_date row) (articles s))))"
    unfolding get_monthly_earned_def
    using rows by (intro arg_cong [where f = sum_list] map_cong)
      (auto simp: row_matches_def detected_on_def)
  also have "\<dots> = (\<Sum>d\<leftarrow>filter ?Q ?ds.
           sum_list (map art_earning (filter (\<lambda>a. ?f a = d) (articles s))))"
    by (simp add: filter_map comp_def)
  also have "\<dots> = sum_list (map art_earning (filter (\<lambda>a. ?Q (?f a)) (articles s)))"
    by (rule partition_sum [OF d cover])
  finally show "get_monthly_earned now s
           = sum_list (map art_earning (detected_since (first_of_month now) s))"
    by (simp add: detected_since_def)
qed

lemma consistent_insert_new:
  assumes "consistent s" and "\<not> is_known_url u s"
  shows "consistent (insert_article u t p e now s)"
proof -
  let ?d = "date_part now"
  let ?r = "\<lparr>art_url = u, art_title = t, art_published_at = p,
             art_detected_at = now, art_earning = e\<rparr>"
  have arts: "articles (insert_article u t p e now s) = articles s @ [?r]"
    using assms(2) by (simp add: insert_article_def insert_or_ignore_def is_known_url_def Let_def)
  have stats: "daily_stats (insert_article u t p e now s) = upsert_daily ?d e (daily_stats s)"
    by (simp add: insert_article_def Let_def)
  have det: "detected_on d (insert_article u t p e now s)
      = detected_on d s @ (if ?d = d then [?r] else [])" for d
    by (simp add: detected_on_def arts)
  from assms(1) have d: "distinct (map ds_date (daily_stats s))"
    and rows: "\<forall>row\<in>set (daily_stats s). row_matches s row"
    and cover: "\<forall>a\<in>set (articles s). date_part (art_detected_at a) \<in> set (map ds_date (daily_stats s))"
    by (auto simp: consistent_def list_all_iff)
  have dates_list: "map ds_date (upsert_daily ?d e (daily_stats s))
      = (if list_ex (\<lambda>x. ds_date x = ?d) (daily_stats s) then map ds_date (daily_stats s)
         else map ds_date (daily_stats s) @ [?d])"
    by (simp add: upsert_daily_def comp_def if_distrib [of ds_date] cong: if_cong)
  have dates: "set (map ds_date (upsert_daily ?d e (daily_stats s)))
      = insert ?d (set (map ds_date (daily_stats s)))"
    unfolding dates_list by (force simp: list_ex_iff)
  have dist: "distinct (map ds_date (upsert_daily ?d e (daily_stats s)))"
    unfolding dates_list using d by (auto simp: list_ex_iff)
  have ok: "\<forall>row\<in>set (upsert_daily ?d e (daily_stats s)).
      row_matches (insert_article u t p e now s) row"
  proof (cases "list_ex (\<lambda>x. ds_date x = ?d) (daily_stats s)")
    case True
    then show ?thesis using rows by (auto simp: upsert_daily_def row_matches_def det)
  next
    case False
    then have "detected_on ?d s = []"
      using cover by (auto simp: detected_on_def list_ex_iff filter_empty_conv)
    with False show ?thesis using rows
      by (auto simp: upsert_daily_def row_matches_def det list_ex_iff)
  qed
  show ?thesis
    unfolding consistent_def stats arts
    using dist ok cover dates by (auto simp: list_all_iff stats)
qed


lemma consistent_init: "consistent (init_db empty_db)"
  by (simp add: consistent_def init_db_def empty_db_def)

lemma consistent_update_streak:
  assumes "consistent s"
  shows "consistent (snd (update_streak now s))"
proof -
  have "articles (snd (update_streak now s)) = articles s"
    and "daily_stats (snd (update_streak now s)) = daily_stats s"
    by (simp_all add: update_streak_def db_update_streak_def Let_def
          split: prod.splits option.splits)
  moreover from this have "row_matches (snd (update_streak now s)) = row_matches s"
    by (intro ext) (simp add: row_matches_def detected_on_def)
  ultimately show ?thesis
    using assms by (simp add: consistent_def)
qed

lemma consistent_poll_articles:
  "consistent s \<Longrightarrow> consistent (snd (poll_articles cfg now found n s))"
proof (induction cfg now found n s rule: poll_articles.induct)
  case (1 cfg now new_count s)
  then show ?case by simp
next
  case (2 cfg now article rest new_count s)
  show ?case
  proof (cases "is_known_url (url article) s")
    case True
    with 2 show ?thesis by simp
  next
    case False
    let ?s1 = "snd (update_streak now s)"
    let ?s2 = "insert_article (url article) (title article) None (article_value_usd cfg) now ?s1"
    have "articles ?s1 = articles s"
      by (simp add: update_streak_def db_update_streak_def Let_def
            split: prod.splits option.splits)
    then have "\<not> is_known_url (url article) ?s1" using False by (simp add: is_known_url_def)
    then have c2: "consistent ?s2"
      using consistent_insert_new consistent_update_streak "2.prems" by blast
    show ?thesis
    proof (cases "call_binds send_article_notification_required
                    send_article_notification_optional poll_cycle_keywords")
      case True
      with False c2 "2.IH"(2) [OF False refl refl True] show ?thesis by (simp add: Let_def)
    next
      case no: False
      with False c2 show ?thesis by (simp add: Let_def)
    qed
  qed
qed

lemma consistent_poll_cycle:
  "consistent s \<Longrightarrow> consistent (snd (poll_cycle cfg outcome now s))"
  by (simp add: poll_cycle_def consistent_poll_articles split: option.splits)

lemma today_of_consistent:
  assumes "consistent s"
  shows "get_today_count now s = int (length (detected_on (date_part now) s))"
    and "get_today_earned now s = sum_list (map art_earning (detected_on (date_part now) s))"
proof -
  from assms have rows: "\<forall>row\<in>set (daily_stats s). row_matches s row"
    and cover: "\<forall>a\<in>set (articles s). date_part (art_detected_at a) \<in> set (map ds_date (daily_stats s))"
    by (auto simp: consistent_def list_all_iff)
  show "get_today_count now s = int (length (detected_on (date_part now) s))"
  proof (cases "find (\<lambda>x. ds_date x = date_part now) (daily_stats s)")
    case None
    then have "detected_on (date_part now) s = []"
      using cover by (auto simp: find_None_iff detected_on_def filter_empty_conv)
    with None show ?thesis by (simp add: get_today_count_def)
  next
    case (Some row)
    then have "row \<in> set (daily_stats s)" "ds_date row = date_part now"
      by (auto simp: find_Some_iff)
    with rows Some show ?thesis by (auto simp: get_today_count_def row_matches_def)
  qed
  show "get_today_earned now s = sum_list (map art_earning (detected_on (date_part now) s))"
  proof (cases "find (\<lambda>x. ds_date x = date_part now) (daily_stats s)")
    case None
    then have "detected_on (date_part now) s = []"
      using cover by (auto simp: find_None_iff detected_on_def filter_empty_conv)
    with None show ?thesis by (simp add: get_today_earned_def)
  next
    case (Some row)
    then have "row \<in> set (daily_stats s)" "ds_date row = date_part now"
      by (auto simp: find_Some_iff)
    with rows Some show ?thesis by (auto simp: get_today_earned_def row_matches_def)
  qed
qed

section \<open>Properties of the feed and the poll cycle\<close>

text \<open>
  Claim C9.  When the response to the fetch has an error status (400 to 599, for
  example 500), \<open>fetch_sitemap\<close> returns \<open>None\<close> and the poll cycle returns \<open>-1\<close> with the
  ledger as it was.
\<close>

theorem poll_cycle_http_error:
  assumes "raises_for_status status_code"
  shows "fetch_sitemap (GetResponse status_code body) = None
       \<and> poll_cycle cfg (GetResponse status_code body) now s = (Inr (- 1), s)"
  using assms by (simp add: poll_cycle_def fetch_and_parse_def fetch_sitemap_def)

theorem poll_cycle_http_error_witness:
  "raises_for_status 500
   \<and> poll_cycle example_cfg (GetResponse 500 Malformed) example_now inserted_once
       = (Inr (- 1), inserted_once)"
  using poll_cycle_http_error [of 500 Malformed example_cfg example_now inserted_once]
  by (simp add: raises_for_status_def)

text \<open>
  Claim C5, as stated, fails: for a malformed document \<open>fetch_and_parse\<close> returns the
  empty list, not the \<open>None\<close> of a failed request, and the poll cycle returns 0.
\<close>

theorem malformed_feed_counterexample:
  "fetch_and_parse (GetResponse 200 Malformed) = Some []
   \<and> fetch_and_parse (GetResponse 500 Malformed) = None
   \<and> fetch_and_parse GetRaised = None
   \<and> poll_cycle example_cfg (GetResponse 200 Malformed) example_now inserted_once
       = (Inr 0, inserted_once)"
  by (simp add: fetch_and_parse_def fetch_sitemap_def parse_sitemap_def poll_cycle_def
        raises_for_status_def)

text \<open>
  Claim C5, amended.  When the request succeeds and the content is malformed,
  \<open>fetch_and_parse\<close> returns an empty batch without raising; the poll cycle returns 0 and
  leaves the ledger as it was, and the scheduler takes the cycle for a success: the
  counter of failures is 0 afterwards and no alert is sent.
\<close>

theorem malformed_feed_is_empty_batch:
  assumes "\<not> raises_for_status status_code"
  shows "fetch_and_parse (GetResponse status_code Malformed) = Some []
       \<and> poll_cycle cfg (GetResponse status_code Malformed) now s = (Inr 0, s)
       \<and> consecutive_failures (main_iteration cfg (GetResponse status_code Malformed, now) st) = 0
       \<and> alerts (main_iteration cfg (GetResponse status_code Malformed, now) st) = alerts st"
  using assms
  by (simp add: fetch_and_parse_def fetch_sitemap_def parse_sitemap_def poll_cycle_def
        main_iteration_def on_result_def)

theorem malformed_feed_is_empty_batch_witness:
  "\<not> raises_for_status 200
   \<and> fetch_and_parse (GetResponse 200 Malformed) = Some []
   \<and> consecutive_failures
       (main_iteration example_cfg (GetResponse 200 Malformed, example_now)
          \<lparr>consecutive_failures = 2, alerts = [], ledger = inserted_once\<rparr>) = 0"
  using malformed_feed_is_empty_batch [of 200 example_cfg example_now inserted_once
          "\<lparr>consecutive_failures = 2, alerts = [], ledger = inserted_once\<rparr>"]
  by (simp add: raises_for_status_def)

section \<open>Properties of webhook delivery\<close>











section \<open>Properties of the scheduler\<close>

lemma on_result_raised:
  "on_result (Inl e) st = st\<lparr>consecutive_failures := consecutive_failures st + 1\<rparr>"
  by (simp add: on_result_def)

lemma parsed_feed:
  "fetch_and_parse new_article_feed
     = Some [\<lparr>url = ''https://example.com/a'', title = ''A'', publication_date = [],
               keywords_list = []\<rparr>,
             \<lparr>url = ''https://example.com/b'', title = ''B'', publication_date = [],
               keywords_list = []\<rparr>,
             \<lparr>url = ''https://example.com/c'', title = ''C'', publication_date = [],
               keywords_list = []\<rparr>]"
  by (simp add: fetch_and_parse_def fetch_sitemap_def new_article_feed_def raises_for_status_def
        parse_sitemap_def List.map_filter_simps parse_url_el_def strip_def is_space_def Let_def)

lemma call_fails:
  "\<not> call_binds send_article_notification_required send_article_notification_optional
       poll_cycle_keywords"
  by (simp add: call_binds_def send_article_notification_required_def
        send_article_notification_optional_def poll_cycle_keywords_def)

lemma fetch_raised: "fetch_and_parse GetRaised = None"
  by (simp add: fetch_and_parse_def fetch_sitemap_def)

lemma poll_cycle_new_article_raises:
  assumes "fetch_and_parse outcome = Some (article # rest)" and "\<not> is_known_url (url article) s"
  shows "fst (poll_cycle cfg outcome now s) = Inl TypeError"
  using assms
  by (simp add: poll_cycle_def Let_def call_binds_def send_article_notification_required_def
        send_article_notification_optional_def poll_cycle_keywords_def)

text \<open>
  Claim C7 at the failing input: three cycles in a row that end in an exception (each
  finds a new article, and the call of \<open>send_article_notification\<close> raises) bring the
  counter to 3 and no alert is sent, while three cycles whose fetch fails send one alert
  and reset the counter.
\<close>

theorem exception_cycles_reach_threshold_without_alert:
  "consecutive_failures (main_loop example_cfg cycles_with_new_articles (start empty_db)) = 3
   \<and> alerts (main_loop example_cfg cycles_with_new_articles (start empty_db)) = []
   \<and> consecutive_failures (main_loop example_cfg cycles_with_fetch_failures (start empty_db)) = 0
   \<and> alerts (main_loop example_cfg cycles_with_fetch_failures (start empty_db)) = [3]"
  by (simp add: cycles_with_new_articles_def cycles_with_fetch_failures_def main_iteration_def
        poll_cycle_def parsed_feed call_fails fetch_raised
        is_known_url_def insert_article_def insert_or_ignore_def upsert_daily_def
        update_streak_def get_streak_def db_update_streak_def new_streak_of_def
        on_result_def max_failures_def start_def init_db_def empty_db_def Let_def)

section \<open>Properties of the progress bar\<close>
































end
